theory Spec2Isabelle
  imports Main "HOL-Library.Word"
begin

section \<open>Text streams\<close>

text \<open>
  The header \<^verbatim>\<open>include/Try/Try.hpp\<close> writes its reports to a \<^verbatim>\<open>std::ostream\<close>.
  A stream is modelled by the characters written to it so far; \<^verbatim>\<open>os << x\<close> appends the
  characters of \<^verbatim>\<open>x\<close>. \<^verbatim>\<open>std::endl\<close> writes a line feed (its flush has no text).
  \<^verbatim>\<open>std::size_t\<close> is taken as the 64-bit unsigned integer of the LP64 platforms;
  \<^verbatim>\<open>++\<close> on it wraps around.
\<close>

type_synonym ostream = string

type_synonym size_t = "64 word"

definition endl :: string where
  "endl = [CHR 0x0A]"

definition digit_char :: "nat \<Rightarrow> char" where
  "digit_char d = ''0123456789'' ! d"

text \<open>
  The standard library's \<^verbatim>\<open>os << n\<close> for an unsigned integer, with the stream's
  default formatting: the decimal digits of \<open>n\<close>, most significant first.
\<close>

function show_nat :: "nat \<Rightarrow> string" where
  "show_nat n = (if n < 10 then [digit_char n] else show_nat (n div 10) @ [digit_char (n mod 10)])"
  by pat_completeness auto
termination
  by (relation "measure id") auto

declare show_nat.simps [simp del]

section \<open>SourceContext\<close>

text \<open>The fields \<^verbatim>\<open>file\<close> and \<^verbatim>\<open>line\<close> of the class.\<close>

record SourceContext =
  sc_file :: string
  sc_line :: size_t

text \<open>\<^verbatim>\<open>operator<<(std::ostream&, const SourceContext&)\<close>: \<^verbatim>\<open>os << sc.file << ", line " << sc.line\<close>.\<close>

definition write_sc :: "ostream \<Rightarrow> SourceContext \<Rightarrow> ostream" where
  "write_sc os sc = os @ sc_file sc @ '', line '' @ show_nat (unat (sc_line sc))"

section \<open>Arguments and their rendering\<close>

text \<open>
  The templates of \<^verbatim>\<open>detail::stream\<close> are selected by the static type \<^verbatim>\<open>T\<close> of the
  argument. An argument is its value together with what the overloads read off \<^verbatim>\<open>T\<close>:
  whether \<^verbatim>\<open>T\<close> is \<^verbatim>\<open>std::nullptr_t\<close> (the non-template overload, which overload
  resolution prefers to both templates), \<^verbatim>\<open>detail::is_streamable<T>::value\<close>,
  \<^verbatim>\<open>typeid(T).name()\<close>, and the characters that \<^verbatim>\<open>os << arg\<close> writes (read only
  when \<^verbatim>\<open>T\<close> is streamable). The argument's own \<^verbatim>\<open>operator<<\<close> is taken to return
  normally.
\<close>

record 'v arg =
  val :: 'v
  is_nullptr_t :: bool
  is_streamable :: bool
  type_name :: string
  shown :: string

definition stream :: "ostream \<Rightarrow> 'v arg \<Rightarrow> ostream" where
  \<open>stream os a =
     (if is_nullptr_t a then os @ ''"nullptr" (nullptr_t)''
      else if is_streamable a then os @ ''"'' @ shown a @ ''" ('' @ type_name a @ '')''
      else os @ ''[Can't print'] ('' @ type_name a @ '')'')\<close>

fun streamArgs :: "ostream \<Rightarrow> 'v arg list \<Rightarrow> ostream" where
  "streamArgs os [] = os @ endl"
| "streamArgs os (first # args) = streamArgs (stream os first @ endl) args"

section \<open>Exceptions and handlers\<close>

text \<open>
  Types are identified by the names the source gives them, without top-level
  cv-qualifiers (handler matching ignores these). A thrown object is
  \<^item> \<open>dyn_type\<close>: the type of the object;
  \<^item> \<open>typeid_name\<close>: the text of \<^verbatim>\<open>typeid(e).name()\<close>, which the implementation chooses;
  \<^item> \<open>converts_to\<close>: the other types \<^verbatim>\<open>T\<close> for which the language makes \<^verbatim>\<open>catch (const T&)\<close>
    a match for the object: the unambiguous public base classes of a class type; for an
    object of pointer type the pointer types it converts to by a standard pointer
    conversion or a qualification conversion; for \<^verbatim>\<open>std::nullptr_t\<close> every pointer and
    pointer-to-member type;
  \<^item> \<open>what\<close>: the text of \<^verbatim>\<open>e.what()\<close> (read only when the object is caught as a
    \<^verbatim>\<open>std::exception\<close>).
  A test body either returns a value or throws.
\<close>

record thrown =
  dyn_type :: string
  typeid_name :: string
  converts_to :: "string \<Rightarrow> bool"
  what :: string

definition std_exception :: string where
  "std_exception = ''std::exception''"

text \<open>
  \<^verbatim>\<open>std::runtime_error{msg}\<close>: its base classes are \<^verbatim>\<open>std::exception\<close> only, and GCC names
  the type \<^verbatim>\<open>St13runtime_error\<close>.
\<close>

definition runtime_error :: "string \<Rightarrow> thrown" where
  "runtime_error msg = \<lparr>dyn_type = ''std::runtime_error'', typeid_name = ''St13runtime_error'',
     converts_to = (\<lambda>T. T = std_exception), what = msg\<rparr>"

text \<open>
  \<^verbatim>\<open>catch (const T&)\<close> matches an object of type \<^verbatim>\<open>T\<close> and an object that converts to
  \<^verbatim>\<open>T\<close> in the sense above; \<^verbatim>\<open>catch (...)\<close> matches every object. The handlers of a try
  block are tried in order; when none matches, the exception leaves the block.
\<close>

datatype handler = Catch string | CatchAll

definition catches :: "string \<Rightarrow> thrown \<Rightarrow> bool" where
  "catches T e = (T = dyn_type e \<or> converts_to e T)"

fun handles :: "handler \<Rightarrow> thrown \<Rightarrow> bool" where
  "handles (Catch T) e = catches T e"
| "handles CatchAll e = True"

fun catch_with :: "(handler \<times> (thrown \<Rightarrow> 'b)) list \<Rightarrow> thrown \<Rightarrow> 'b option" where
  "catch_with [] e = None"
| "catch_with ((h, body) # hs) e = (if handles h e then Some (body e) else catch_with hs e)"

section \<open>The test runner\<close>

record Try =
  mOs :: ostream
  mSuccesCount :: size_t
  mFailCount :: size_t

definition Try_new :: "ostream \<Rightarrow> Try" where
  "Try_new os = \<lparr>mOs = os, mSuccesCount = 0, mFailCount = 0\<rparr>"

definition os :: "Try \<Rightarrow> ostream" where
  "os t = mOs t"

definition succesCount :: "Try \<Rightarrow> size_t" where
  "succesCount t = mSuccesCount t"

definition failCount :: "Try \<Rightarrow> size_t" where
  "failCount t = mFailCount t"

text \<open>
  \<^verbatim>\<open>Try::operator()\<close>. The result is \<open>Inr\<close> of the returned boolean, or \<open>Inl\<close> of an
  exception that no handler of the function caught.
\<close>

definition run ::
  "SourceContext \<Rightarrow> ('v arg list \<Rightarrow> thrown + 'r) \<Rightarrow> 'v arg list \<Rightarrow> Try \<Rightarrow> (thrown + bool) \<times> Try" where
  \<open>run sc test args t =
     (case test args of
        Inr _ \<Rightarrow> (Inr True, t\<lparr>mSuccesCount := mSuccesCount t + 1\<rparr>)
      | Inl e \<Rightarrow>
          (case catch_with
                  [(Catch std_exception, \<lambda>e.
                      write_sc (os t @ ''Test failed: '') sc @ endl
                        @ ''Message: "'' @ what e @ ''"'' @ endl),
                   (CatchAll, \<lambda>e.
                      write_sc (os t @ ''Test failed: '') sc @ endl
                        @ ''(no message)'' @ endl)] e of
             None \<Rightarrow> (Inl e, t)
           | Some os1 \<Rightarrow>
               (let os2 = (if length args = 0 then os1 @ ''(no arguments)'' @ endl @ endl
                           else streamArgs (os1 @ ''Arguments:'' @ endl) args)
                in (Inr False, t\<lparr>mOs := os2, mFailCount := mFailCount t + 1\<rparr>))))\<close>

section \<open>Assertion helpers\<close>

text \<open>
  The lambdas of \<^verbatim>\<open>equal\<close>, \<^verbatim>\<open>notequal\<close>, \<^verbatim>\<open>less\<close> and \<^verbatim>\<open>lequal\<close> differ in the
  operator and in the message only:
  \<^verbatim>\<open>[](const T1& a, const T2& b) { if (!(a == b)) throw std::runtime_error{"..."}; }\<close>.
  The operator of the operands' types is a parameter; it may itself throw. The lambda
  has two parameters and the helper passes it two arguments, so the last equation is
  never reached.
\<close>

fun compare_lambda ::
  "string \<Rightarrow> ('v \<Rightarrow> 'v \<Rightarrow> thrown + bool) \<Rightarrow> 'v arg list \<Rightarrow> thrown + unit" where
  "compare_lambda msg cmp [a, b] =
     (case cmp (val a) (val b) of
        Inl e \<Rightarrow> Inl e
      | Inr holds \<Rightarrow> if \<not> holds then Inl (runtime_error msg) else Inr ())"
| "compare_lambda msg cmp args = Inr ()"

definition equal ::
  "SourceContext \<Rightarrow> ('v \<Rightarrow> 'v \<Rightarrow> thrown + bool) \<Rightarrow> 'v arg \<Rightarrow> 'v arg \<Rightarrow> Try \<Rightarrow> (thrown + bool) \<times> Try" where
  "equal sc eq a b t = run sc (compare_lambda ''Arguments are not equal!'' eq) [a, b] t"

definition notequal ::
  "SourceContext \<Rightarrow> ('v \<Rightarrow> 'v \<Rightarrow> thrown + bool) \<Rightarrow> 'v arg \<Rightarrow> 'v arg \<Rightarrow> Try \<Rightarrow> (thrown + bool) \<times> Try" where
  "notequal sc neq a b t = run sc (compare_lambda ''Arguments are equal!'' neq) [a, b] t"

definition less ::
  "SourceContext \<Rightarrow> ('v \<Rightarrow> 'v \<Rightarrow> thrown + bool) \<Rightarrow> 'v arg \<Rightarrow> 'v arg \<Rightarrow> Try \<Rightarrow> (thrown + bool) \<times> Try" where
  "less sc lt a b t =
     run sc (compare_lambda ''The first argument is not less than the second!'' lt) [a, b] t"

definition lequal ::
  "SourceContext \<Rightarrow> ('v \<Rightarrow> 'v \<Rightarrow> thrown + bool) \<Rightarrow> 'v arg \<Rightarrow> 'v arg \<Rightarrow> Try \<Rightarrow> (thrown + bool) \<times> Try" where
  "lequal sc le a b t =
     run sc (compare_lambda ''The first argument is not less than or equal to the second!'' le) [a, b] t"

text \<open>
  The lambda of \<^verbatim>\<open>throws<T>\<close>: the handler for \<^verbatim>\<open>T\<close> returns from the lambda, the two
  others throw a \<^verbatim>\<open>std::runtime_error\<close>, and a body that returned reaches the
  \<^verbatim>\<open>throw\<close> after the try block.
\<close>

definition throws_lambda ::
  "string \<Rightarrow> ('v arg list \<Rightarrow> thrown + 'r) \<Rightarrow> 'v arg list \<Rightarrow> thrown + unit" where
  "throws_lambda T test args =
     (case test args of
        Inl e \<Rightarrow>
          (case catch_with
                  [(Catch T, \<lambda>e. Inr ()),
                   (Catch std_exception, \<lambda>e.
                      Inl (runtime_error
                        (''Test throws a wrong exception ('' @ typeid_name e @ ''): '' @ what e))),
                   (CatchAll, \<lambda>e. Inl (runtime_error ''Test throws a wrong non-exception!''))] e of
             None \<Rightarrow> Inl e
           | Some r \<Rightarrow> r)
      | Inr _ \<Rightarrow> Inl (runtime_error ''Test did not throw!''))"

definition throws ::
  "string \<Rightarrow> SourceContext \<Rightarrow> ('v arg list \<Rightarrow> thrown + 'r) \<Rightarrow> 'v arg list \<Rightarrow> Try \<Rightarrow> (thrown + bool) \<times> Try" where
  "throws T sc test args t = run sc (throws_lambda T test) args t"

section \<open>Sequences of invocations\<close>

text \<open>
  One invocation of the runner: the call operator or one of the five helpers. A test
  program makes its invocations one after the other on the same runner.
\<close>

datatype ('v, 'r) invocation =
    Run SourceContext "'v arg list \<Rightarrow> thrown + 'r" "'v arg list"
  | Equal SourceContext "'v \<Rightarrow> 'v \<Rightarrow> thrown + bool" "'v arg" "'v arg"
  | Notequal SourceContext "'v \<Rightarrow> 'v \<Rightarrow> thrown + bool" "'v arg" "'v arg"
  | Less SourceContext "'v \<Rightarrow> 'v \<Rightarrow> thrown + bool" "'v arg" "'v arg"
  | Lequal SourceContext "'v \<Rightarrow> 'v \<Rightarrow> thrown + bool" "'v arg" "'v arg"
  | Throws string SourceContext "'v arg list \<Rightarrow> thrown + 'r" "'v arg list"

fun invoke :: "('v, 'r) invocation \<Rightarrow> Try \<Rightarrow> (thrown + bool) \<times> Try" where
  "invoke (Run sc test args) t = run sc test args t"
| "invoke (Equal sc eq a b) t = equal sc eq a b t"
| "invoke (Notequal sc neq a b) t = notequal sc neq a b t"
| "invoke (Less sc lt a b) t = less sc lt a b t"
| "invoke (Lequal sc le a b) t = lequal sc le a b t"
| "invoke (Throws T sc test args) t = throws T sc test args t"

fun invoke_all :: "('v, 'r) invocation list \<Rightarrow> Try \<Rightarrow> Try" where
  "invoke_all [] t = t"
| "invoke_all (c # cs) t = invoke_all cs (snd (invoke c t))"

section \<open>Concrete inputs\<close>

definition here :: SourceContext where
  "here = \<lparr>sc_file = ''test.cpp'', sc_line = 42\<rparr>"

text \<open>An \<^verbatim>\<open>int\<close> argument, as GCC names the type; negative values are not needed.\<close>

definition int_arg :: "nat \<Rightarrow> nat arg" where
  "int_arg n = \<lparr>val = n, is_nullptr_t = False, is_streamable = True, type_name = ''i'',
     shown = show_nat n\<rparr>"

text \<open>A value of a class \<^verbatim>\<open>struct Foo {};\<close> without \<^verbatim>\<open>operator<<\<close>.\<close>

definition foo_arg :: "nat arg" where
  "foo_arg = \<lparr>val = 0, is_nullptr_t = False, is_streamable = False, type_name = ''3Foo'',
     shown = []\<rparr>"

text \<open>
  The literal \<^verbatim>\<open>nullptr\<close>, in a language version whose streams print
  \<^verbatim>\<open>std::nullptr_t\<close>, and in one whose streams do not.
\<close>

definition nullptr_arg :: "bool \<Rightarrow> nat arg" where
  "nullptr_arg streamable = \<lparr>val = 0, is_nullptr_t = True, is_streamable = streamable,
     type_name = ''Dn'', shown = ''nullptr''\<rparr>"

definition int_eq :: "nat \<Rightarrow> nat \<Rightarrow> thrown + bool" where
  "int_eq a b = Inr (a = b)"

definition throwing_eq :: "nat \<Rightarrow> nat \<Rightarrow> thrown + bool" where
  "throwing_eq a b = Inl (runtime_error ''broken =='')"

text \<open>
  Test bodies: one returns a value, one throws a \<^verbatim>\<open>std::runtime_error\<close>, one throws the
  \<^verbatim>\<open>int\<close> \<^verbatim>\<open>5\<close>.
\<close>

definition returning :: "nat \<Rightarrow> nat arg list \<Rightarrow> thrown + nat" where
  "returning r args = Inr r"

definition throwing_runtime_error :: "nat arg list \<Rightarrow> thrown + nat" where
  "throwing_runtime_error args = Inl (runtime_error ''boom'')"

definition thrown_int :: thrown where
  "thrown_int = \<lparr>dyn_type = ''int'', typeid_name = ''i'', converts_to = (\<lambda>T. False), what = []\<rparr>"

definition throwing_int :: "nat arg list \<Rightarrow> thrown + nat" where
  "throwing_int args = Inl thrown_int"

text \<open>
  A body that throws an \<^verbatim>\<open>int*\<close>, which converts to the pointers to \<^verbatim>\<open>void\<close> and to the
  more qualified pointers to \<^verbatim>\<open>int\<close>.
\<close>

definition thrown_int_ptr :: thrown where
  "thrown_int_ptr = \<lparr>dyn_type = ''int*'', typeid_name = ''Pi'',
     converts_to = (\<lambda>T. T \<in> set [''void*'', ''const void*'', ''volatile void*'',
       ''const volatile void*'', ''const int*'', ''volatile int*'', ''const volatile int*'']),
     what = []\<rparr>"

definition throwing_int_ptr :: "nat arg list \<Rightarrow> thrown + nat" where
  "throwing_int_ptr args = Inl thrown_int_ptr"

definition passing :: "(nat, nat) invocation" where
  "passing = Run here (returning 0) []"

section \<open>Auxiliary facts\<close>

lemma stream_append: "stream out a = out @ stream [] a"
  by (simp add: stream_def)

lemma streamArgs_concat:
  "streamArgs out args = out @ concat (map (\<lambda>a. stream [] a @ endl) args) @ endl"
proof (induction args arbitrary: out)
  case Nil
  show ?case by simp
next
  case (Cons a args)
  have "streamArgs out (a # args) = streamArgs (stream out a @ endl) args"
    by simp
  also have "\<dots> = (stream out a @ endl) @ concat (map (\<lambda>a. stream [] a @ endl) args) @ endl"
    by (rule Cons.IH)
  also have "stream out a = out @ stream [] a"
    by (rule stream_append)
  finally show ?case by simp
qed

lemma run_returned:
  "test args = Inr v \<Longrightarrow> run sc test args t = (Inr True, t\<lparr>mSuccesCount := mSuccesCount t + 1\<rparr>)"
  by (simp add: run_def)

lemma catch_std:
  "catch_with [(Catch std_exception, f), (CatchAll, g)] e =
     Some (if catches std_exception e then f e else g e)"
  by simp

lemma run_threw:
  \<open>test args = Inl e \<Longrightarrow>
   run sc test args t =
     (Inr False,
      t\<lparr>mOs := mOs t @ ''Test failed: '' @ sc_file sc @ '', line '' @ show_nat (unat (sc_line sc)) @ endl
             @ (if catches std_exception e then ''Message: "'' @ what e @ ''"'' else ''(no message)'') @ endl
             @ (if args = [] then ''(no arguments)'' @ endl @ endl
                else ''Arguments:'' @ endl @ concat (map (\<lambda>a. stream [] a @ endl) args) @ endl),
        mFailCount := mFailCount t + 1\<rparr>)\<close>
  unfolding run_def catch_std
  by (simp add: os_def write_sc_def streamArgs_concat)

lemma show_nat_4: "show_nat 4 = ''4''"
  by (simp add: show_nat.simps [of 4] digit_char_def)

lemma show_nat_42: "show_nat 42 = ''42''"
  by (simp add: show_nat.simps [of 42] show_nat_4 digit_char_def)

lemma catches_std_runtime_error: "catches std_exception (runtime_error msg)"
  by (simp add: catches_def runtime_error_def)

lemma what_runtime_error: "what (runtime_error msg) = msg"
  by (simp add: runtime_error_def)

lemma not_catches_std_int: "\<not> catches std_exception thrown_int"
  by (simp add: catches_def std_exception_def thrown_int_def)

lemma stream_streamable:
  \<open>\<not> is_nullptr_t a \<Longrightarrow> is_streamable a \<Longrightarrow>
   stream out a = out @ ''"'' @ shown a @ ''" ('' @ type_name a @ '')''\<close>
  by (simp add: stream_def)

lemma write_sc_text: "write_sc [] sc = sc_file sc @ '', line '' @ show_nat (unat (sc_line sc))"
  by (simp add: write_sc_def)

lemma run_runtime_error:
  \<open>body args = Inl (runtime_error msg) \<Longrightarrow>
   run sc body args t =
     (Inr False,
      t\<lparr>mOs := mOs t @ ''Test failed: '' @ write_sc [] sc @ endl @ ''Message: "'' @ msg @ ''"'' @ endl
             @ (if args = [] then ''(no arguments)'' @ endl @ endl
                else ''Arguments:'' @ endl @ concat (map (\<lambda>a. stream [] a @ endl) args) @ endl),
        mFailCount := mFailCount t + 1\<rparr>)\<close>
  by (simp add: run_threw [of body args "runtime_error msg"] catches_std_runtime_error
      what_runtime_error write_sc_text)

lemma catch_T_std:
  "catch_with [(Catch T, f), (Catch std_exception, g), (CatchAll, h)] e =
     Some (if catches T e then f e else if catches std_exception e then g e else h e)"
  by simp

lemma throws_lambda_returned:
  "test args = Inr v \<Longrightarrow> throws_lambda T test args = Inl (runtime_error ''Test did not throw!'')"
  by (simp add: throws_lambda_def)

lemma throws_lambda_threw:
  "test args = Inl e \<Longrightarrow>
   throws_lambda T test args =
     (if catches T e then Inr ()
      else if catches std_exception e
        then Inl (runtime_error (''Test throws a wrong exception ('' @ typeid_name e @ ''): '' @ what e))
        else Inl (runtime_error ''Test throws a wrong non-exception!''))"
  unfolding throws_lambda_def catch_T_std by simp

lemma compare_lambda_holds:
  "cmp (val a) (val b) = Inr True \<Longrightarrow> compare_lambda msg cmp [a, b] = Inr ()"
  by simp

lemma compare_lambda_fails:
  "cmp (val a) (val b) = Inr False \<Longrightarrow> compare_lambda msg cmp [a, b] = Inl (runtime_error msg)"
  by simp

lemma compare_lambda_throws:
  "cmp (val a) (val b) = Inl e \<Longrightarrow> compare_lambda msg cmp [a, b] = Inl e"
  by simp

lemma show_nat_5: "show_nat 5 = ''5''"
  by (simp add: show_nat.simps [of 5] digit_char_def)

lemma write_sc_here: "write_sc [] here = ''test.cpp, line 42''"
  by (simp add: write_sc_def here_def show_nat_42)

lemma stream_int_arg: \<open>stream [] (int_arg n) = ''"'' @ show_nat n @ ''" (i)''\<close>
  by (simp add: stream_def int_arg_def)

lemma unat_incr:
  fixes x :: size_t
  assumes "unat x + 1 < 2 ^ 64"
  shows "unat (x + 1) = unat x + 1"
  using assms by (simp add: unat_word_ariths)

lemma le_incr:
  fixes x :: size_t
  assumes "unat x + 1 < 2 ^ 64"
  shows "x \<le> x + 1"
  using assms by (simp add: word_le_nat_alt unat_word_ariths)

lemma run_step:
  "(fst (run sc test args t) = Inr True
      \<and> mSuccesCount (snd (run sc test args t)) = mSuccesCount t + 1
      \<and> mFailCount (snd (run sc test args t)) = mFailCount t)
   \<or> (fst (run sc test args t) = Inr False
      \<and> mSuccesCount (snd (run sc test args t)) = mSuccesCount t
      \<and> mFailCount (snd (run sc test args t)) = mFailCount t + 1)"
proof (cases "test args")
  case (Inl e)
  then show ?thesis by (simp add: run_threw)
next
  case (Inr v)
  then show ?thesis by (simp add: run_returned)
qed

lemma invoke_step:
  "(fst (invoke c t) = Inr True
      \<and> mSuccesCount (snd (invoke c t)) = mSuccesCount t + 1
      \<and> mFailCount (snd (invoke c t)) = mFailCount t)
   \<or> (fst (invoke c t) = Inr False
      \<and> mSuccesCount (snd (invoke c t)) = mSuccesCount t
      \<and> mFailCount (snd (invoke c t)) = mFailCount t + 1)"
proof (cases c)
  case (Run sc test args)
  show ?thesis unfolding Run invoke.simps by (rule run_step)
next
  case (Equal sc eq a b)
  show ?thesis unfolding Equal invoke.simps equal_def by (rule run_step)
next
  case (Notequal sc neq a b)
  show ?thesis unfolding Notequal invoke.simps notequal_def by (rule run_step)
next
  case (Less sc lt a b)
  show ?thesis unfolding Less invoke.simps less_def by (rule run_step)
next
  case (Lequal sc le a b)
  show ?thesis unfolding Lequal invoke.simps lequal_def by (rule run_step)
next
  case (Throws T sc test args)
  show ?thesis unfolding Throws invoke.simps throws_def by (rule run_step)
qed

lemma invoke_all_append: "invoke_all (xs @ ys) t = invoke_all ys (invoke_all xs t)"
  by (induction xs arbitrary: t) simp_all

lemma invoke_counts:
  assumes "unat (mSuccesCount t) + unat (mFailCount t) + 1 < 2 ^ 64"
  shows "unat (mSuccesCount (snd (invoke c t))) + unat (mFailCount (snd (invoke c t)))
           = unat (mSuccesCount t) + unat (mFailCount t) + 1
         \<and> mSuccesCount t \<le> mSuccesCount (snd (invoke c t))
         \<and> mFailCount t \<le> mFailCount (snd (invoke c t))"
proof -
  from assms have s: "unat (mSuccesCount t) + 1 < 2 ^ 64" and f: "unat (mFailCount t) + 1 < 2 ^ 64"
    by simp_all
  from invoke_step [of c t] show ?thesis
  proof (elim disjE conjE)
    assume "mSuccesCount (snd (invoke c t)) = mSuccesCount t + 1"
      and "mFailCount (snd (invoke c t)) = mFailCount t"
    then show ?thesis
      using unat_incr [OF s] le_incr [OF s] by simp
  next
    assume "mSuccesCount (snd (invoke c t)) = mSuccesCount t"
      and "mFailCount (snd (invoke c t)) = mFailCount t + 1"
    then show ?thesis
      using unat_incr [OF f] le_incr [OF f] by simp
  qed
qed

lemma invoke_all_counts:
  "unat (mSuccesCount t) + unat (mFailCount t) + length cs < 2 ^ 64 \<Longrightarrow>
   unat (mSuccesCount (invoke_all cs t)) + unat (mFailCount (invoke_all cs t))
     = unat (mSuccesCount t) + unat (mFailCount t) + length cs
   \<and> mSuccesCount t \<le> mSuccesCount (invoke_all cs t)
   \<and> mFailCount t \<le> mFailCount (invoke_all cs t)"
proof (induction cs arbitrary: t)
  case Nil
  show ?case by simp
next
  case (Cons c cs)
  let ?t = "snd (invoke c t)"
  from Cons.prems have one: "unat (mSuccesCount t) + unat (mFailCount t) + 1 < 2 ^ 64"
    by simp
  note step = invoke_counts [OF one, of c]
  from Cons.prems step have "unat (mSuccesCount ?t) + unat (mFailCount ?t) + length cs < 2 ^ 64"
    by simp
  from Cons.IH [OF this] have ih:
    "unat (mSuccesCount (invoke_all cs ?t)) + unat (mFailCount (invoke_all cs ?t))
       = unat (mSuccesCount ?t) + unat (mFailCount ?t) + length cs"
    "mSuccesCount ?t \<le> mSuccesCount (invoke_all cs ?t)"
    "mFailCount ?t \<le> mFailCount (invoke_all cs ?t)"
    by simp_all
  from step have st:
    "unat (mSuccesCount ?t) + unat (mFailCount ?t) = unat (mSuccesCount t) + unat (mFailCount t) + 1"
    "mSuccesCount t \<le> mSuccesCount ?t"
    "mFailCount t \<le> mFailCount ?t"
    by simp_all
  have "mSuccesCount t \<le> mSuccesCount (invoke_all cs ?t)"
    using st(2) ih(2) by (rule order_trans)
  moreover have "mFailCount t \<le> mFailCount (invoke_all cs ?t)"
    using st(3) ih(3) by (rule order_trans)
  ultimately show ?case
    using ih(1) st(1) by simp
qed

lemma invoke_passing: "invoke passing t = (Inr True, t\<lparr>mSuccesCount := mSuccesCount t + 1\<rparr>)"
  by (simp add: passing_def run_returned [of "returning 0" "[]" 0] returning_def)

lemma invoke_all_passing:
  "invoke_all (replicate n passing) t = t\<lparr>mSuccesCount := mSuccesCount t + of_nat n\<rparr>"
proof (induction n arbitrary: t)
  case 0
  show ?case by simp
next
  case (Suc n)
  show ?case
    by (simp add: invoke_passing Suc.IH add.assoc)
qed

section \<open>The runner's call operator\<close>



text \<open>
  C3. When the test body returns, the call operator returns \<open>true\<close> and increments the
  success counter. The value the body returned plays no part: any other body that
  returns on these arguments, whatever it returns, gives the same result and runner.
\<close>

theorem run_success_ignores_return_value:
  assumes "test args = Inr v"
  shows "fst (run sc test args t) = Inr True
         \<and> succesCount (snd (run sc test args t)) = succesCount t + 1
         \<and> (\<forall>(test' :: 'v arg list \<Rightarrow> thrown + 'q) v'.
               test' args = Inr v' \<longrightarrow> run sc test' args t = run sc test args t)"
proof -
  have r: "run sc test args t = (Inr True, t\<lparr>mSuccesCount := mSuccesCount t + 1\<rparr>)"
    using assms by (rule run_returned)
  have "run sc test' args t = run sc test args t" if "test' args = Inr v'"
    for test' :: "'v arg list \<Rightarrow> thrown + 'q" and v'
    unfolding r using that by (rule run_returned)
  then show ?thesis
    unfolding r by (simp add: succesCount_def)
qed

theorem run_success_ignores_return_value_witness:
  "returning 7 [] = Inr 7
   \<and> fst (run here (returning 7) [] (Try_new [])) = Inr True
   \<and> succesCount (snd (run here (returning 7) [] (Try_new []))) = 1
   \<and> run here (returning 0) [] (Try_new []) = run here (returning 7) [] (Try_new [])"
proof -
  have h7: "returning 7 [] = Inr 7" and h0: "returning 0 [] = Inr 0"
    by (simp_all add: returning_def)
  note w = run_success_ignores_return_value [of "returning 7" "[]" 7 here "Try_new []", OF h7]
  from w have a: "fst (run here (returning 7) [] (Try_new [])) = Inr True"
    by (rule conjunct1)
  from w have "succesCount (snd (run here (returning 7) [] (Try_new []))) = succesCount (Try_new []) + 1"
    by (rule conjunct1 [OF conjunct2])
  then have b: "succesCount (snd (run here (returning 7) [] (Try_new []))) = 1"
    by (simp add: Try_new_def succesCount_def)
  from w have q: "\<forall>(test' :: nat arg list \<Rightarrow> thrown + nat) v'.
      test' [] = Inr v' \<longrightarrow> run here test' [] (Try_new []) = run here (returning 7) [] (Try_new [])"
    by (rule conjunct2 [OF conjunct2])
  have c: "run here (returning 0) [] (Try_new []) = run here (returning 7) [] (Try_new [])"
    by (rule q [rule_format, of "returning 0" 0, OF h0])
  show ?thesis
    by (intro conjI h7 a b c)
qed

text \<open>
  C10. When the test body returns, the invocation writes nothing to the stream and
  leaves the failure counter as it was: the runner differs from the one before in the
  success counter only.
\<close>

theorem success_writes_nothing:
  assumes "test args = Inr v"
  shows "os (snd (run sc test args t)) = os t
         \<and> failCount (snd (run sc test args t)) = failCount t
         \<and> snd (run sc test args t) = t\<lparr>mSuccesCount := mSuccesCount t + 1\<rparr>"
  using assms by (simp add: run_returned os_def failCount_def)

theorem success_writes_nothing_witness:
  "returning 7 [int_arg 4] = Inr 7
   \<and> os (snd (run here (returning 7) [int_arg 4] (Try_new ''log''))) = ''log''
   \<and> failCount (snd (run here (returning 7) [int_arg 4] (Try_new ''log''))) = 0"
proof -
  have h: "returning 7 [int_arg 4] = Inr 7"
    by (simp add: returning_def)
  from success_writes_nothing [of "returning 7" "[int_arg 4]" 7 here "Try_new ''log''", OF h] h
  show ?thesis
    by (simp add: os_def failCount_def Try_new_def)
qed

section \<open>The failure report\<close>

text \<open>
  C7. When the test body throws, what the invocation appends to the stream starts with
  the line \<^verbatim>\<open>Test failed: <file>, line <line>\<close>, followed by the line
  \<^verbatim>\<open>Message: "<what>"\<close> when the thrown object is caught as a \<^verbatim>\<open>std::exception\<close>,
  and by the line \<^verbatim>\<open>(no message)\<close> otherwise. Nothing comes between the stream's
  earlier content and the first of these lines.
\<close>

theorem failure_report_head:
  assumes "test args = Inl e"
  shows \<open>\<exists>rest. os (snd (run sc test args t)) =
           os t @ ''Test failed: '' @ sc_file sc @ '', line '' @ show_nat (unat (sc_line sc)) @ endl
             @ (if catches std_exception e then ''Message: "'' @ what e @ ''"'' else ''(no message)'')
             @ endl @ rest\<close>
proof -
  let ?rest = "if args = [] then ''(no arguments)'' @ endl @ endl
               else ''Arguments:'' @ endl @ concat (map (\<lambda>a. stream [] a @ endl) args) @ endl"
  from assms have \<open>os (snd (run sc test args t)) =
           os t @ ''Test failed: '' @ sc_file sc @ '', line '' @ show_nat (unat (sc_line sc)) @ endl
             @ (if catches std_exception e then ''Message: "'' @ what e @ ''"'' else ''(no message)'')
             @ endl @ ?rest\<close>
    by (simp add: run_threw os_def)
  then show ?thesis ..
qed

theorem failure_report_head_witness:
  \<open>throwing_runtime_error [int_arg 4] = Inl (runtime_error ''boom'')
   \<and> throwing_int [int_arg 4] = Inl thrown_int
   \<and> (\<exists>rest. os (snd (run here throwing_runtime_error [int_arg 4] (Try_new []))) =
          ''Test failed: test.cpp, line 42'' @ endl @ ''Message: "boom"'' @ endl @ rest)
   \<and> (\<exists>rest. os (snd (run here throwing_int [int_arg 4] (Try_new []))) =
          ''Test failed: test.cpp, line 42'' @ endl @ ''(no message)'' @ endl @ rest)\<close>
proof -
  have h1: "throwing_runtime_error [int_arg 4] = Inl (runtime_error ''boom'')"
    by (simp add: throwing_runtime_error_def)
  have h2: "throwing_int [int_arg 4] = Inl thrown_int"
    by (simp add: throwing_int_def)
  note l = show_nat_42
  note c1 = catches_std_runtime_error [of "''boom''"]
  note c2 = not_catches_std_int
  from failure_report_head [of throwing_runtime_error "[int_arg 4]" "runtime_error ''boom''" here "Try_new []", OF h1] c1 l
  have r1: \<open>\<exists>rest. os (snd (run here throwing_runtime_error [int_arg 4] (Try_new []))) =
          ''Test failed: test.cpp, line 42'' @ endl @ ''Message: "boom"'' @ endl @ rest\<close>
    by (simp add: here_def os_def Try_new_def runtime_error_def)
  from failure_report_head [of throwing_int "[int_arg 4]" thrown_int here "Try_new []", OF h2] c2 l
  have r2: \<open>\<exists>rest. os (snd (run here throwing_int [int_arg 4] (Try_new []))) =
          ''Test failed: test.cpp, line 42'' @ endl @ ''(no message)'' @ endl @ rest\<close>
    by (simp add: here_def os_def Try_new_def)
  from h1 h2 r1 r2 show ?thesis by blast
qed

text \<open>
  C8, as stated: with \<open>N \<ge> 1\<close> arguments the report ends after the \<open>N\<close> rendered lines.
  It does not: for one argument the stream does not hold the text that ends with the
  argument's line, because \<^verbatim>\<open>streamArgs\<close> ends its output with one more line feed.
\<close>

theorem arguments_end_with_blank_line:
  \<open>os (snd (run here throwing_runtime_error [int_arg 4] (Try_new []))) \<noteq>
     ''Test failed: test.cpp, line 42'' @ endl @ ''Message: "boom"'' @ endl
       @ ''Arguments:'' @ endl @ ''"4" (i)'' @ endl\<close>
  by (simp add: run_threw [of throwing_runtime_error _ "runtime_error ''boom''"]
      throwing_runtime_error_def catches_std_runtime_error what_runtime_error os_def Try_new_def
      here_def show_nat_42 show_nat_4 stream_def int_arg_def digit_char_def endl_def)

text \<open>
  C8, amended. After the message line the report is the line \<^verbatim>\<open>(no arguments)\<close> and
  an empty line when no argument was supplied; otherwise it is the line
  \<^verbatim>\<open>Arguments:\<close>, one rendered line for each argument in the order supplied, and
  one empty line.
\<close>

theorem failure_report_arguments:
  assumes "test args = Inl e"
  shows \<open>os (snd (run sc test args t)) =
           os t @ ''Test failed: '' @ sc_file sc @ '', line '' @ show_nat (unat (sc_line sc)) @ endl
             @ (if catches std_exception e then ''Message: "'' @ what e @ ''"'' else ''(no message)'')
             @ endl
             @ (if length args = 0 then ''(no arguments)'' @ endl @ endl
                else ''Arguments:'' @ endl @ concat (map (\<lambda>a. stream [] a @ endl) args) @ endl)\<close>
  using assms by (simp add: run_threw os_def)

theorem failure_report_arguments_witness:
  \<open>throwing_runtime_error [int_arg 4, foo_arg] = Inl (runtime_error ''boom'')
   \<and> throwing_runtime_error [] = Inl (runtime_error ''boom'')
   \<and> os (snd (run here throwing_runtime_error [int_arg 4, foo_arg] (Try_new []))) =
       ''Test failed: test.cpp, line 42'' @ endl @ ''Message: "boom"'' @ endl
         @ ''Arguments:'' @ endl @ ''"4" (i)'' @ endl @ ''[Can't print'] (3Foo)'' @ endl @ endl
   \<and> os (snd (run here throwing_runtime_error [] (Try_new []))) =
       ''Test failed: test.cpp, line 42'' @ endl @ ''Message: "boom"'' @ endl
         @ ''(no arguments)'' @ endl @ endl\<close>
proof -
  have h1: "throwing_runtime_error [int_arg 4, foo_arg] = Inl (runtime_error ''boom'')"
    and h2: "throwing_runtime_error [] = Inl (runtime_error ''boom'')"
    by (simp_all add: throwing_runtime_error_def)
  from failure_report_arguments
         [of throwing_runtime_error "[int_arg 4, foo_arg]" "runtime_error ''boom''" here "Try_new []", OF h1]
  have r1: \<open>os (snd (run here throwing_runtime_error [int_arg 4, foo_arg] (Try_new []))) =
       ''Test failed: test.cpp, line 42'' @ endl @ ''Message: "boom"'' @ endl
         @ ''Arguments:'' @ endl @ ''"4" (i)'' @ endl @ ''[Can't print'] (3Foo)'' @ endl @ endl\<close>
    by (simp add: catches_std_runtime_error what_runtime_error os_def Try_new_def
      here_def show_nat_42 show_nat_4 stream_def int_arg_def foo_arg_def digit_char_def)
  from failure_report_arguments
         [of throwing_runtime_error "[]" "runtime_error ''boom''" here "Try_new []", OF h2]
  have r2: \<open>os (snd (run here throwing_runtime_error [] (Try_new []))) =
       ''Test failed: test.cpp, line 42'' @ endl @ ''Message: "boom"'' @ endl
         @ ''(no arguments)'' @ endl @ endl\<close>
    by (simp add: catches_std_runtime_error what_runtime_error os_def Try_new_def
      here_def show_nat_42)
  from h1 h2 r1 r2 show ?thesis by blast
qed

section \<open>Rendering of values\<close>

text \<open>
  C6. For a value of a type that cannot be written to a stream, such as an object of
  an empty class \<^verbatim>\<open>Foo\<close>, the rendering is \<^verbatim>\<open>[Can't print'] (3Foo)\<close>: the literal of
  the source has an apostrophe before the closing bracket, so the rendering is not
  \<^verbatim>\<open>[Can't print] (3Foo)\<close>.
\<close>

theorem unprintable_marker_has_stray_quote:
  \<open>stream [] foo_arg = ''[Can't print'] (3Foo)'' \<and> stream [] foo_arg \<noteq> ''[Can't print] (3Foo)''\<close>
  by (simp add: stream_def foo_arg_def)

text \<open>
  C9. An argument of type \<^verbatim>\<open>std::nullptr_t\<close> is rendered as \<^verbatim>\<open>"nullptr" (nullptr_t)\<close>,
  whether or not the type is streamable and whatever \<^verbatim>\<open>typeid\<close> names it.
\<close>

theorem nullptr_rendering:
  assumes "is_nullptr_t a"
  shows \<open>stream out a = out @ ''"nullptr" (nullptr_t)''\<close>
  using assms by (simp add: stream_def)

theorem nullptr_rendering_witness:
  \<open>is_nullptr_t (nullptr_arg True) \<and> is_nullptr_t (nullptr_arg False)
   \<and> stream [] (nullptr_arg True) = ''"nullptr" (nullptr_t)''
   \<and> stream [] (nullptr_arg False) = ''"nullptr" (nullptr_t)''\<close>
proof -
  have h: "is_nullptr_t (nullptr_arg True)" "is_nullptr_t (nullptr_arg False)"
    by (simp_all add: nullptr_arg_def)
  from nullptr_rendering [of "nullptr_arg True" "[]", OF h(1)]
       nullptr_rendering [of "nullptr_arg False" "[]", OF h(2)] h
  show ?thesis by simp
qed

section \<open>The helpers\<close>

text \<open>
  C4. \<^verbatim>\<open>equal\<close> returns \<open>true\<close> exactly when \<^verbatim>\<open>a == b\<close> returns \<open>true\<close>; then only the
  success counter changes. Otherwise it returns \<open>false\<close>, increments the failure counter
  and leaves the success counter, and the report names both operands as its arguments,
  \<open>a\<close> before \<open>b\<close>. Its message is \<^verbatim>\<open>Arguments are not equal!\<close> when \<^verbatim>\<open>a == b\<close> returned
  \<open>false\<close>; when \<^verbatim>\<open>==\<close> itself threw, the runner's handlers report that exception, with
  its own message or with \<^verbatim>\<open>(no message)\<close>.
\<close>

theorem equal_verdict_and_report:
  \<open>(fst (equal sc eq a b t) = Inr True \<longleftrightarrow> eq (val a) (val b) = Inr True)
   \<and> (eq (val a) (val b) = Inr True \<longrightarrow>
        snd (equal sc eq a b t) = t\<lparr>mSuccesCount := mSuccesCount t + 1\<rparr>)
   \<and> (eq (val a) (val b) \<noteq> Inr True \<longrightarrow>
        fst (equal sc eq a b t) = Inr False
        \<and> failCount (snd (equal sc eq a b t)) = failCount t + 1
        \<and> succesCount (snd (equal sc eq a b t)) = succesCount t
        \<and> os (snd (equal sc eq a b t)) =
            os t @ ''Test failed: '' @ write_sc [] sc @ endl
              @ (case eq (val a) (val b) of
                   Inr holds \<Rightarrow> ''Message: "Arguments are not equal!"''
                 | Inl e \<Rightarrow> if catches std_exception e then ''Message: "'' @ what e @ ''"''
                           else ''(no message)'')
              @ endl @ ''Arguments:'' @ endl @ stream [] a @ endl @ stream [] b @ endl @ endl)\<close>
proof (cases "eq (val a) (val b)")
  case (Inl e)
  then have "compare_lambda ''Arguments are not equal!'' eq [a, b] = Inl e"
    by (rule compare_lambda_throws)
  then show ?thesis
    by (simp add: equal_def run_threw Inl os_def failCount_def succesCount_def write_sc_text)
next
  case (Inr holds)
  show ?thesis
  proof (cases holds)
    case True
    with Inr have "compare_lambda ''Arguments are not equal!'' eq [a, b] = Inr ()"
      by (simp add: compare_lambda_holds)
    then show ?thesis
      by (simp add: equal_def run_returned Inr True)
  next
    case False
    with Inr have "compare_lambda ''Arguments are not equal!'' eq [a, b]
        = Inl (runtime_error ''Arguments are not equal!'')"
      by (simp add: compare_lambda_fails)
    then show ?thesis
      by (simp add: equal_def run_runtime_error Inr False os_def failCount_def succesCount_def)
  qed
qed

theorem equal_verdict_and_report_witness:
  \<open>int_eq (val (int_arg 4)) (val (int_arg 4)) = Inr True
   \<and> int_eq (val (int_arg 4)) (val (int_arg 5)) \<noteq> Inr True
   \<and> throwing_eq (val (int_arg 4)) (val (int_arg 4)) \<noteq> Inr True
   \<and> equal here int_eq (int_arg 4) (int_arg 4) (Try_new []) =
       (Inr True, \<lparr>mOs = [], mSuccesCount = 1, mFailCount = 0\<rparr>)
   \<and> fst (equal here int_eq (int_arg 4) (int_arg 5) (Try_new [])) = Inr False
   \<and> failCount (snd (equal here int_eq (int_arg 4) (int_arg 5) (Try_new []))) = 1
   \<and> succesCount (snd (equal here int_eq (int_arg 4) (int_arg 5) (Try_new []))) = 0
   \<and> os (snd (equal here int_eq (int_arg 4) (int_arg 5) (Try_new []))) =
       ''Test failed: test.cpp, line 42'' @ endl @ ''Message: "Arguments are not equal!"'' @ endl
         @ ''Arguments:'' @ endl @ ''"4" (i)'' @ endl @ ''"5" (i)'' @ endl @ endl
   \<and> fst (equal here throwing_eq (int_arg 4) (int_arg 4) (Try_new [])) = Inr False
   \<and> os (snd (equal here throwing_eq (int_arg 4) (int_arg 4) (Try_new []))) =
       ''Test failed: test.cpp, line 42'' @ endl @ ''Message: "broken =="'' @ endl
         @ ''Arguments:'' @ endl @ ''"4" (i)'' @ endl @ ''"4" (i)'' @ endl @ endl\<close>
proof -
  have e11: "int_eq (val (int_arg 4)) (val (int_arg 4)) = Inr True"
    and e12: "int_eq (val (int_arg 4)) (val (int_arg 5)) = Inr False"
    and t11: "throwing_eq (val (int_arg 4)) (val (int_arg 4)) = Inl (runtime_error ''broken =='')"
    by (simp_all add: int_eq_def throwing_eq_def int_arg_def)
  have init: "os (Try_new []) = []" "failCount (Try_new []) = 0" "succesCount (Try_new []) = 0"
    "mSuccesCount (Try_new []) = 0"
    by (simp_all add: Try_new_def os_def failCount_def succesCount_def)
  note w1 = equal_verdict_and_report [of here int_eq "int_arg 4" "int_arg 4" "Try_new []"]
  note w2 = equal_verdict_and_report [of here int_eq "int_arg 4" "int_arg 5" "Try_new []"]
  note w3 = equal_verdict_and_report [of here throwing_eq "int_arg 4" "int_arg 4" "Try_new []"]
  have r1: "equal here int_eq (int_arg 4) (int_arg 4) (Try_new []) =
       (Inr True, \<lparr>mOs = [], mSuccesCount = 1, mFailCount = 0\<rparr>)"
    using w1 e11 by (simp add: prod_eq_iff Try_new_def)
  have r2: \<open>fst (equal here int_eq (int_arg 4) (int_arg 5) (Try_new [])) = Inr False
      \<and> failCount (snd (equal here int_eq (int_arg 4) (int_arg 5) (Try_new []))) = 1
      \<and> succesCount (snd (equal here int_eq (int_arg 4) (int_arg 5) (Try_new []))) = 0
      \<and> os (snd (equal here int_eq (int_arg 4) (int_arg 5) (Try_new []))) =
       ''Test failed: test.cpp, line 42'' @ endl @ ''Message: "Arguments are not equal!"'' @ endl
         @ ''Arguments:'' @ endl @ ''"4" (i)'' @ endl @ ''"5" (i)'' @ endl @ endl\<close>
    using w2 by (simp add: e12 init write_sc_here stream_int_arg show_nat_4 show_nat_5)
  have r3: \<open>fst (equal here throwing_eq (int_arg 4) (int_arg 4) (Try_new [])) = Inr False
      \<and> os (snd (equal here throwing_eq (int_arg 4) (int_arg 4) (Try_new []))) =
       ''Test failed: test.cpp, line 42'' @ endl @ ''Message: "broken =="'' @ endl
         @ ''Arguments:'' @ endl @ ''"4" (i)'' @ endl @ ''"4" (i)'' @ endl @ endl\<close>
    using w3 by (simp add: t11 init write_sc_here stream_int_arg show_nat_4
        catches_std_runtime_error what_runtime_error)
  from e11 e12 t11 r1 r2 r3 show ?thesis
    by simp
qed

text \<open>
  C5, as stated: \<^verbatim>\<open>throws<T>\<close> returns \<open>true\<close> only when the kind of the thrown object is
  exactly \<^verbatim>\<open>T\<close>. It does not: \<^verbatim>\<open>throws<std::exception>\<close> returns \<open>true\<close> for a body that
  throws a \<^verbatim>\<open>std::runtime_error\<close>, whose kind is not \<^verbatim>\<open>std::exception\<close> but derives
  from it.
\<close>

theorem throws_accepts_derived_exception:
  "throwing_runtime_error [] = Inl (runtime_error ''boom'')
   \<and> dyn_type (runtime_error ''boom'') \<noteq> std_exception
   \<and> fst (throws std_exception here throwing_runtime_error [] (Try_new [])) = Inr True"
proof -
  have h: "throwing_runtime_error [] = Inl (runtime_error ''boom'')"
    by (simp add: throwing_runtime_error_def)
  have "throws_lambda std_exception throwing_runtime_error [] = Inr ()"
    by (simp add: throws_lambda_threw [of throwing_runtime_error "[]" "runtime_error ''boom''" std_exception, OF h] catches_std_runtime_error)
  then have "fst (throws std_exception here throwing_runtime_error [] (Try_new [])) = Inr True"
    by (simp add: throws_def run_returned)
  moreover have "dyn_type (runtime_error ''boom'') \<noteq> std_exception"
    by (simp add: runtime_error_def std_exception_def)
  ultimately show ?thesis using h by simp
qed

text \<open>
  C5, amended. \<^verbatim>\<open>throws<T>\<close> returns \<open>true\<close> exactly when the body throws an object that
  the handler \<^verbatim>\<open>catch (const T&)\<close> matches by the language's rule: an object of kind
  \<^verbatim>\<open>T\<close>, of a class derived from \<^verbatim>\<open>T\<close>, or, for a pointer kind \<^verbatim>\<open>T\<close>, a pointer that
  converts to \<^verbatim>\<open>T\<close> or the null pointer literal. Otherwise it returns \<open>false\<close> and the
  message of the report is \<^verbatim>\<open>Test did not throw!\<close> when the body returned,
  \<^verbatim>\<open>Test throws a wrong exception (<typeid name>): <what>\<close> when the body threw another
  object that is caught as a \<^verbatim>\<open>std::exception\<close>, and
  \<^verbatim>\<open>Test throws a wrong non-exception!\<close> when it threw anything else.
\<close>

theorem throws_verdict_and_message:
  \<open>(fst (throws T sc test args t) = Inr True \<longleftrightarrow> (\<exists>e. test args = Inl e \<and> catches T e))
   \<and> (fst (throws T sc test args t) \<noteq> Inr True \<longrightarrow>
        fst (throws T sc test args t) = Inr False
        \<and> (\<exists>rest. os (snd (throws T sc test args t)) =
              os t @ ''Test failed: '' @ write_sc [] sc @ endl @ ''Message: "''
                @ (case test args of
                     Inr v \<Rightarrow> ''Test did not throw!''
                   | Inl e \<Rightarrow>
                       if catches std_exception e
                       then ''Test throws a wrong exception ('' @ typeid_name e @ ''): '' @ what e
                       else ''Test throws a wrong non-exception!'')
                @ ''"'' @ endl @ rest))\<close>
proof -
  let ?tail = "if args = [] then ''(no arguments)'' @ endl @ endl
               else ''Arguments:'' @ endl @ concat (map (\<lambda>a. stream [] a @ endl) args) @ endl"
  have failed: \<open>fst (throws T sc test args t) \<noteq> Inr True \<and> fst (throws T sc test args t) = Inr False
      \<and> (\<exists>rest. os (snd (throws T sc test args t)) =
              os t @ ''Test failed: '' @ write_sc [] sc @ endl @ ''Message: "'' @ msg
                @ ''"'' @ endl @ rest)\<close>
    if "throws_lambda T test args = Inl (runtime_error msg)" for msg
  proof -
    have \<open>os (snd (throws T sc test args t)) =
              os t @ ''Test failed: '' @ write_sc [] sc @ endl @ ''Message: "'' @ msg
                @ ''"'' @ endl @ ?tail\<close>
      by (simp add: throws_def run_runtime_error [of "throws_lambda T test" args msg sc t, OF that] os_def)
    then have \<open>\<exists>rest. os (snd (throws T sc test args t)) =
              os t @ ''Test failed: '' @ write_sc [] sc @ endl @ ''Message: "'' @ msg
                @ ''"'' @ endl @ rest\<close> ..
    moreover have "fst (throws T sc test args t) = Inr False"
      by (simp add: throws_def run_runtime_error [of "throws_lambda T test" args msg sc t, OF that])
    ultimately show ?thesis by simp
  qed
  show ?thesis
  proof (cases "test args")
    case (Inr v)
    from failed [OF throws_lambda_returned [of test args v T, OF Inr]] show ?thesis
      by (simp add: Inr)
  next
    case (Inl e)
    show ?thesis
    proof (cases "catches T e")
      case True
      with Inl have "throws_lambda T test args = Inr ()"
        by (simp add: throws_lambda_threw)
      then have "fst (throws T sc test args t) = Inr True"
        by (simp add: throws_def run_returned)
      with True show ?thesis
        by (simp add: Inl)
    next
      case False
      show ?thesis
      proof (cases "catches std_exception e")
        case True
        with Inl False have "throws_lambda T test args =
            Inl (runtime_error (''Test throws a wrong exception ('' @ typeid_name e @ ''): '' @ what e))"
          by (simp add: throws_lambda_threw)
        from failed [OF this] False True show ?thesis
          by (simp add: Inl)
      next
        case nonstd: False
        with Inl False have "throws_lambda T test args =
            Inl (runtime_error ''Test throws a wrong non-exception!'')"
          by (simp add: throws_lambda_threw)
        from failed [OF this] False nonstd show ?thesis
          by (simp add: Inl)
      qed
    qed
  qed
qed

theorem throws_verdict_and_message_witness:
  \<open>fst (throws ''std::runtime_error'' here throwing_runtime_error [] (Try_new [])) = Inr True
   \<and> fst (throws ''void*'' here throwing_int_ptr [] (Try_new [])) = Inr True
   \<and> fst (throws ''std::logic_error'' here throwing_runtime_error [] (Try_new [])) = Inr False
   \<and> (\<exists>rest. os (snd (throws ''std::logic_error'' here throwing_runtime_error [] (Try_new []))) =
         ''Test failed: test.cpp, line 42'' @ endl
           @ ''Message: "Test throws a wrong exception (St13runtime_error): boom"'' @ endl @ rest)
   \<and> fst (throws ''std::logic_error'' here throwing_int [] (Try_new [])) = Inr False
   \<and> (\<exists>rest. os (snd (throws ''std::logic_error'' here throwing_int [] (Try_new []))) =
         ''Test failed: test.cpp, line 42'' @ endl
           @ ''Message: "Test throws a wrong non-exception!"'' @ endl @ rest)
   \<and> fst (throws ''std::logic_error'' here (returning 0) [] (Try_new [])) = Inr False
   \<and> (\<exists>rest. os (snd (throws ''std::logic_error'' here (returning 0) [] (Try_new []))) =
         ''Test failed: test.cpp, line 42'' @ endl
           @ ''Message: "Test did not throw!"'' @ endl @ rest)\<close>
proof -
  have b1: "throwing_runtime_error [] = Inl (runtime_error ''boom'')"
    and b2: "throwing_int [] = Inl thrown_int"
    and b3: "returning 0 [] = Inr 0"
    by (simp_all add: throwing_runtime_error_def throwing_int_def returning_def)
  have c1: "catches ''std::runtime_error'' (runtime_error ''boom'')"
    and c2: "\<not> catches ''std::logic_error'' (runtime_error ''boom'')"
    and c3: "\<not> catches ''std::logic_error'' thrown_int"
    and d: "typeid_name (runtime_error ''boom'') = ''St13runtime_error''"
    by (simp_all add: catches_def runtime_error_def std_exception_def thrown_int_def)
  have init: "os (Try_new []) = []"
    by (simp add: Try_new_def os_def)
  have r1: "fst (throws ''std::runtime_error'' here throwing_runtime_error [] (Try_new [])) = Inr True"
    using throws_verdict_and_message
      [of "''std::runtime_error''" here throwing_runtime_error "[]" "Try_new []"]
    by (simp add: b1 c1)
  have b0: "throwing_int_ptr [] = Inl thrown_int_ptr"
    by (simp add: throwing_int_ptr_def)
  have c0: "catches ''void*'' thrown_int_ptr"
    by (simp add: catches_def thrown_int_ptr_def)
  have r0: "fst (throws ''void*'' here throwing_int_ptr [] (Try_new [])) = Inr True"
    using throws_verdict_and_message
      [of "''void*''" here throwing_int_ptr "[]" "Try_new []"]
    by (simp add: b0 c0)
  have r2: \<open>fst (throws ''std::logic_error'' here throwing_runtime_error [] (Try_new [])) = Inr False
    \<and> (\<exists>rest. os (snd (throws ''std::logic_error'' here throwing_runtime_error [] (Try_new []))) =
         ''Test failed: test.cpp, line 42'' @ endl
           @ ''Message: "Test throws a wrong exception (St13runtime_error): boom"'' @ endl @ rest)\<close>
    using throws_verdict_and_message
      [of "''std::logic_error''" here throwing_runtime_error "[]" "Try_new []"]
    by (simp add: b1 c2 d init write_sc_here catches_std_runtime_error what_runtime_error)
  have r3: \<open>fst (throws ''std::logic_error'' here throwing_int [] (Try_new [])) = Inr False
    \<and> (\<exists>rest. os (snd (throws ''std::logic_error'' here throwing_int [] (Try_new []))) =
         ''Test failed: test.cpp, line 42'' @ endl
           @ ''Message: "Test throws a wrong non-exception!"'' @ endl @ rest)\<close>
    using throws_verdict_and_message
      [of "''std::logic_error''" here throwing_int "[]" "Try_new []"]
    by (simp add: b2 c3 init write_sc_here not_catches_std_int)
  have r4: \<open>fst (throws ''std::logic_error'' here (returning 0) [] (Try_new [])) = Inr False
    \<and> (\<exists>rest. os (snd (throws ''std::logic_error'' here (returning 0) [] (Try_new []))) =
         ''Test failed: test.cpp, line 42'' @ endl
           @ ''Message: "Test did not throw!"'' @ endl @ rest)\<close>
    using throws_verdict_and_message
      [of "''std::logic_error''" here "returning 0" "[]" "Try_new []"]
    by (simp add: b3 init write_sc_here)
  show ?thesis
    by (intro conjI r1 r0 r2 [THEN conjunct1] r2 [THEN conjunct2] r3 [THEN conjunct1]
        r3 [THEN conjunct2] r4 [THEN conjunct1] r4 [THEN conjunct2])
qed

section \<open>The counters\<close>

text \<open>
  C2, as stated: after any \<open>N\<close> invocations on a fresh runner the two counters add up to
  \<open>N\<close>. The counters are \<^verbatim>\<open>std::size_t\<close> and wrap around: after \<open>2\<^sup>6\<^sup>4\<close> invocations of a
  passing test both counters are \<open>0\<close>.
\<close>

theorem counters_wrap_around:
  "length (replicate (2 ^ 64) passing) = 2 ^ 64
   \<and> succesCount (invoke_all (replicate (2 ^ 64) passing) (Try_new [])) = 0
   \<and> failCount (invoke_all (replicate (2 ^ 64) passing) (Try_new [])) = 0"
proof -
  have z: "(of_nat (2 ^ 64) :: size_t) = 0"
    by simp
  have e: "invoke_all (replicate (2 ^ 64) passing) (Try_new [])
      = (Try_new [])\<lparr>mSuccesCount := mSuccesCount (Try_new []) + of_nat (2 ^ 64)\<rparr>"
    by (rule invoke_all_passing)
  have s: "succesCount (invoke_all (replicate (2 ^ 64) passing) (Try_new [])) = 0"
    unfolding e z by (simp add: succesCount_def Try_new_def)
  have f: "failCount (invoke_all (replicate (2 ^ 64) passing) (Try_new [])) = 0"
    unfolding e z by (simp add: failCount_def Try_new_def)
  have l: "length (replicate (2 ^ 64) passing) = 2 ^ 64"
    by (rule length_replicate)
  show ?thesis
    by (intro conjI l s f)
qed

text \<open>
  C2, amended. For fewer than \<open>2\<^sup>6\<^sup>4\<close> invocations (through the call operator or any of
  the helpers) on a fresh runner, the two counters add up to the number of invocations,
  and neither counter is ever smaller after a longer prefix of the sequence than after
  a shorter one. At every invocation, on any runner, one counter is incremented by one
  (modulo \<open>2\<^sup>6\<^sup>4\<close>) and the other keeps its value.
\<close>

theorem counters_count_invocations:
  fixes cs :: "('v, 'r) invocation list"
  assumes "length cs < 2 ^ 64"
  shows "unat (succesCount (invoke_all cs (Try_new out)))
           + unat (failCount (invoke_all cs (Try_new out))) = length cs
         \<and> (\<forall>j k. j \<le> k \<and> k \<le> length cs \<longrightarrow>
               succesCount (invoke_all (take j cs) (Try_new out))
                 \<le> succesCount (invoke_all (take k cs) (Try_new out))
               \<and> failCount (invoke_all (take j cs) (Try_new out))
                 \<le> failCount (invoke_all (take k cs) (Try_new out)))
         \<and> (\<forall>(c :: ('v, 'r) invocation) t.
               (succesCount (snd (invoke c t)) = succesCount t + 1
                  \<and> failCount (snd (invoke c t)) = failCount t)
               \<or> (succesCount (snd (invoke c t)) = succesCount t
                  \<and> failCount (snd (invoke c t)) = failCount t + 1))"
proof -
  let ?t0 = "Try_new out"
  have fresh: "unat (mSuccesCount ?t0) + unat (mFailCount ?t0) = 0"
    by (simp add: Try_new_def)
  have total: "unat (mSuccesCount (invoke_all xs ?t0)) + unat (mFailCount (invoke_all xs ?t0))
      = length xs" if "length xs < 2 ^ 64" for xs :: "('v, 'r) invocation list"
    using invoke_all_counts [of ?t0 xs] that fresh by simp
  have mono: "mSuccesCount (invoke_all (take j cs) ?t0) \<le> mSuccesCount (invoke_all (take k cs) ?t0)
      \<and> mFailCount (invoke_all (take j cs) ?t0) \<le> mFailCount (invoke_all (take k cs) ?t0)"
    if "j \<le> k" and "k \<le> length cs" for j k
  proof -
    let ?tj = "invoke_all (take j cs) ?t0"
    let ?rest = "drop j (take k cs)"
    from that assms have "length (take j cs) < 2 ^ 64"
      by simp
    then have "unat (mSuccesCount ?tj) + unat (mFailCount ?tj) = length (take j cs)"
      by (rule total)
    with that assms have "unat (mSuccesCount ?tj) + unat (mFailCount ?tj) + length ?rest < 2 ^ 64"
      by simp
    from invoke_all_counts [OF this]
    have "mSuccesCount ?tj \<le> mSuccesCount (invoke_all ?rest ?tj)"
      and "mFailCount ?tj \<le> mFailCount (invoke_all ?rest ?tj)"
      by simp_all
    moreover have "take k cs = take j cs @ ?rest"
    proof -
      have "take k cs = take j (take k cs) @ drop j (take k cs)"
        by (rule append_take_drop_id [symmetric])
      also have "take j (take k cs) = take j cs"
        using that(1) by (simp add: min_absorb1)
      finally show ?thesis .
    qed
    then have "invoke_all (take k cs) ?t0 = invoke_all (take j cs @ ?rest) ?t0"
      by (rule arg_cong [where f = "\<lambda>xs. invoke_all xs ?t0"])
    then have "invoke_all (take k cs) ?t0 = invoke_all ?rest ?tj"
      by (simp only: invoke_all_append)
    ultimately show ?thesis
      by simp
  qed
  have step: "(succesCount (snd (invoke c t)) = succesCount t + 1
                  \<and> failCount (snd (invoke c t)) = failCount t)
               \<or> (succesCount (snd (invoke c t)) = succesCount t
                  \<and> failCount (snd (invoke c t)) = failCount t + 1)"
    for c :: "('v, 'r) invocation" and t
    using invoke_step [of c t]
    by (elim disjE conjE) (simp_all add: succesCount_def failCount_def)
  show ?thesis
  proof (intro conjI)
    show "unat (succesCount (invoke_all cs ?t0)) + unat (failCount (invoke_all cs ?t0)) = length cs"
      using total [OF assms] by (simp add: succesCount_def failCount_def)
  next
    show "\<forall>j k. j \<le> k \<and> k \<le> length cs \<longrightarrow>
               succesCount (invoke_all (take j cs) ?t0) \<le> succesCount (invoke_all (take k cs) ?t0)
               \<and> failCount (invoke_all (take j cs) ?t0) \<le> failCount (invoke_all (take k cs) ?t0)"
    proof (intro allI impI)
      fix j k
      assume "j \<le> k \<and> k \<le> length cs"
      then have "j \<le> k" and "k \<le> length cs"
        by simp_all
      from mono [OF this]
      show "succesCount (invoke_all (take j cs) ?t0) \<le> succesCount (invoke_all (take k cs) ?t0)
               \<and> failCount (invoke_all (take j cs) ?t0) \<le> failCount (invoke_all (take k cs) ?t0)"
        by (simp add: succesCount_def failCount_def)
    qed
  next
    show "\<forall>(c :: ('v, 'r) invocation) t.
               (succesCount (snd (invoke c t)) = succesCount t + 1
                  \<and> failCount (snd (invoke c t)) = failCount t)
               \<or> (succesCount (snd (invoke c t)) = succesCount t
                  \<and> failCount (snd (invoke c t)) = failCount t + 1)"
      by (intro allI step)
  qed
qed

theorem counters_count_invocations_witness:
  "length [passing, Equal here int_eq (int_arg 4) (int_arg 5)] < 2 ^ 64
   \<and> unat (succesCount (invoke_all [passing, Equal here int_eq (int_arg 4) (int_arg 5)] (Try_new [])))
       + unat (failCount (invoke_all [passing, Equal here int_eq (int_arg 4) (int_arg 5)] (Try_new [])))
       = 2
   \<and> failCount (invoke_all [passing] (Try_new []))
       \<le> failCount (invoke_all [passing, Equal here int_eq (int_arg 4) (int_arg 5)] (Try_new []))"
proof -
  let ?cs = "[passing, Equal here int_eq (int_arg 4) (int_arg 5)]"
  have h: "length ?cs < 2 ^ 64"
    by simp
  note w = counters_count_invocations [of ?cs "[]", OF h]
  from w have "unat (succesCount (invoke_all ?cs (Try_new [])))
       + unat (failCount (invoke_all ?cs (Try_new []))) = length ?cs"
    by (rule conjunct1)
  also have "length ?cs = 2"
    by simp
  finally have total: "unat (succesCount (invoke_all ?cs (Try_new [])))
       + unat (failCount (invoke_all ?cs (Try_new []))) = 2" .
  from w have "\<forall>j k. j \<le> k \<and> k \<le> length ?cs \<longrightarrow>
               succesCount (invoke_all (take j ?cs) (Try_new []))
                 \<le> succesCount (invoke_all (take k ?cs) (Try_new []))
               \<and> failCount (invoke_all (take j ?cs) (Try_new []))
                 \<le> failCount (invoke_all (take k ?cs) (Try_new []))"
    by (rule conjunct1 [OF conjunct2])
  then have "1 \<le> (2 :: nat) \<and> 2 \<le> length ?cs \<longrightarrow>
               succesCount (invoke_all (take 1 ?cs) (Try_new []))
                 \<le> succesCount (invoke_all (take 2 ?cs) (Try_new []))
               \<and> failCount (invoke_all (take 1 ?cs) (Try_new []))
                 \<le> failCount (invoke_all (take 2 ?cs) (Try_new []))"
    by (rule spec [where x = 2, OF spec [where x = 1]])
  moreover have "take 1 ?cs = [passing]" and "take 2 ?cs = ?cs"
    by simp_all
  ultimately have mono: "failCount (invoke_all [passing] (Try_new []))
       \<le> failCount (invoke_all ?cs (Try_new []))"
    by simp
  show ?thesis
    by (intro conjI h total mono)
qed

end
